theory Spec2Isabelle
  imports Main "HOL-Library.Word"
begin

section \<open>Data model\<close>

text \<open>
  A Go \<open>string\<close> is an immutable sequence of bytes; it is modelled by \<open>string\<close>, whose
  characters are bytes. A \<open>[]byte\<close> is a list of 8-bit words, and \<open>fs.FileMode\<close> is a
  \<open>uint32\<close>. A value of the interface type \<open>error\<close> is \<open>None\<close> for \<open>nil\<close> and
  \<open>Some e\<close> otherwise; a \<open>*string\<close> is \<open>None\<close> for the nil pointer and \<open>Some s\<close> for a
  pointer to \<open>s\<close>.
\<close>

type_synonym byte = "8 word"

type_synonym FileMode = "32 word"

datatype error = Error string

text \<open>
  A Go function either returns or panics at run time; the only panic the code of
  \<open>Execute\<close> can raise itself is the nil-pointer dereference of \<open>*publicIP\<close>.
\<close>

datatype 'a outcome = Returned 'a | Panicked

text \<open>
  The two interfaces of \<open>main.go\<close>. A method acts on the world outside the program
  (network, file system, the state of a mock), of type \<open>'w\<close>: it takes the world and
  returns its results with the new world. Methods are taken to return.
\<close>

record 'w IPGetter =
  GetPublicIP :: "'w \<Rightarrow> (string option \<times> error option) \<times> 'w"

record 'w FileWriter =
  Write :: "string \<Rightarrow> byte list \<Rightarrow> FileMode \<Rightarrow> 'w \<Rightarrow> error option \<times> 'w"

text \<open>
  Every call that goes through an interface is recorded, with its arguments, in a log
  that is threaded through the execution next to the world, the way the mock
  controller of \<open>main_test.go\<close> records calls.
\<close>

datatype call =
    is_GetPublicIP: GetPublicIP_called
  | is_Write: Write_called (filename: string) (data: "byte list") (perm: FileMode)

type_synonym 'w state = "'w \<times> call list"

definition call_GetPublicIP ::
  "'w IPGetter \<Rightarrow> 'w state \<Rightarrow> (string option \<times> error option) \<times> 'w state" where
  "call_GetPublicIP ipGetter st =
     (case st of (w, log) \<Rightarrow>
        (case GetPublicIP ipGetter w of (r, w') \<Rightarrow>
           (r, (w', log @ [GetPublicIP_called]))))"

definition call_Write ::
  "'w FileWriter \<Rightarrow> string \<Rightarrow> byte list \<Rightarrow> FileMode \<Rightarrow> 'w state \<Rightarrow> error option \<times> 'w state" where
  "call_Write fileWriter fn bs pm st =
     (case st of (w, log) \<Rightarrow>
        (case Write fileWriter fn bs pm w of (r, w') \<Rightarrow>
           (r, (w', log @ [Write_called fn bs pm]))))"

section \<open>The orchestration function\<close>

text \<open>The conversion \<open>[]byte(s)\<close>: a copy of the bytes of the string.\<close>

definition bytes_of_string :: "string \<Rightarrow> byte list" where
  "bytes_of_string s = map of_char s"

definition string_of_bytes :: "byte list \<Rightarrow> string" where
  "string_of_bytes bs = map (\<lambda>b. char_of (unat b)) bs"

text \<open>
  \<open>Execute\<close> of \<open>main.go\<close>. The literal \<open>0644\<close> of the source is octal, that is 420.
  Go evaluates the arguments of a call before the call, so the dereference of a nil
  \<open>publicIP\<close> panics before \<open>Write\<close> is entered.
\<close>

definition Execute ::
  "'w IPGetter \<Rightarrow> 'w FileWriter \<Rightarrow> string \<Rightarrow> 'w state \<Rightarrow> error option outcome \<times> 'w state" where
  "Execute ipGetter fileWriter outputFile st =
     (case call_GetPublicIP ipGetter st of ((publicIP, err), st1) \<Rightarrow>
        if err \<noteq> None then (Returned err, st1)
        else (case publicIP of
                None \<Rightarrow> (Panicked, st1)
              | Some s \<Rightarrow>
                  (case call_Write fileWriter outputFile (bytes_of_string s) 420 st1 of
                     (r, st2) \<Rightarrow> (Returned r, st2))))"

text \<open>Observations of one invocation that starts in world \<open>w\<close> with an empty log.\<close>

definition Execute_result ::
  "'w IPGetter \<Rightarrow> 'w FileWriter \<Rightarrow> string \<Rightarrow> 'w \<Rightarrow> error option outcome" where
  "Execute_result ipGetter fileWriter outputFile w =
     fst (Execute ipGetter fileWriter outputFile (w, []))"

definition Execute_calls ::
  "'w IPGetter \<Rightarrow> 'w FileWriter \<Rightarrow> string \<Rightarrow> 'w \<Rightarrow> call list" where
  "Execute_calls ipGetter fileWriter outputFile w =
     snd (snd (Execute ipGetter fileWriter outputFile (w, [])))"

definition Execute_world ::
  "'w IPGetter \<Rightarrow> 'w FileWriter \<Rightarrow> string \<Rightarrow> 'w \<Rightarrow> 'w" where
  "Execute_world ipGetter fileWriter outputFile w =
     fst (snd (Execute ipGetter fileWriter outputFile (w, [])))"

section \<open>The concrete adapter of \<open>internal/ipify.go\<close>\<close>

text \<open>
  \<open>http.Get\<close>, \<open>io.ReadAll\<close> and \<open>json.Unmarshal\<close> belong to the Go standard library;
  they are parameters of the model. The first two act on the world and either fail or
  give a response, respectively the bytes of its body. \<open>json.Unmarshal\<close> into a
  \<open>map[string]string\<close> either fails or gives the decoded map (a nil map, left by the
  JSON value \<open>null\<close>, reads like the empty one).
\<close>

record ('w, 'r) stdlib =
  http_Get :: "string \<Rightarrow> 'w \<Rightarrow> (error + 'r) \<times> 'w"
  io_ReadAll :: "'r \<Rightarrow> 'w \<Rightarrow> (error + byte list) \<times> 'w"
  json_Unmarshal :: "byte list \<Rightarrow> error + (string \<rightharpoonup> string)"

text \<open>Indexing a Go map: the zero value of the element type for a missing key.\<close>

definition map_index :: "(string \<rightharpoonup> string) \<Rightarrow> string \<Rightarrow> string" where
  "map_index m k = (case m k of None \<Rightarrow> [] | Some v \<Rightarrow> v)"

definition Ipify_GetPublicIP ::
  "('w, 'r) stdlib \<Rightarrow> 'w \<Rightarrow> (string option \<times> error option) \<times> 'w" where
  "Ipify_GetPublicIP lib w =
     (case http_Get lib ''https://api.ipify.org?format=json'' w of
        (Inl err, w1) \<Rightarrow> ((None, Some err), w1)
      | (Inr resp, w1) \<Rightarrow>
          (case io_ReadAll lib resp w1 of
             (Inl err, w2) \<Rightarrow> ((None, Some err), w2)
           | (Inr body, w2) \<Rightarrow>
               (case json_Unmarshal lib body of
                  Inl err \<Rightarrow> ((None, Some err), w2)
                | Inr result \<Rightarrow> ((Some (map_index result ''ip''), None), w2))))"

definition Ipify :: "('w, 'r) stdlib \<Rightarrow> 'w IPGetter" where
  "Ipify lib = \<lparr>GetPublicIP = Ipify_GetPublicIP lib\<rparr>"

section \<open>Test doubles\<close>

text \<open>
  The mocks of \<open>TestExecute\<close>: an \<open>IPGetter\<close> that returns a pointer to
  \<open>"184.162.7.66"\<close> and a nil error, and a \<open>FileWriter\<close> that returns nil. Further
  stand-ins fail, or return a nil pointer with a nil error.
\<close>

definition mockIpGetter :: "'w IPGetter" where
  "mockIpGetter = \<lparr>GetPublicIP = (\<lambda>w. ((Some ''184.162.7.66'', None), w))\<rparr>"

definition mockFileWriter :: "'w FileWriter" where
  "mockFileWriter = \<lparr>Write = (\<lambda>fn bs pm w. (None, w))\<rparr>"

definition failingIpGetter :: "'w IPGetter" where
  "failingIpGetter = \<lparr>GetPublicIP = (\<lambda>w. ((None, Some (Error ''fetch failed'')), w))\<rparr>"

definition failingFileWriter :: "'w FileWriter" where
  "failingFileWriter = \<lparr>Write = (\<lambda>fn bs pm w. (Some (Error ''persist failed''), w))\<rparr>"

definition nilIpGetter :: "'w IPGetter" where
  "nilIpGetter = \<lparr>GetPublicIP = (\<lambda>w. ((None, None), w))\<rparr>"

text \<open>
  A file system in memory, the world of a \<open>FileWriter\<close> that stores what it is given.
\<close>

type_synonym files = "(string \<times> byte list \<times> FileMode) list"

definition memFileWriter :: "files FileWriter" where
  "memFileWriter = \<lparr>Write = (\<lambda>fn bs pm fs. (None, (fn, bs, pm) # fs))\<rparr>"

text \<open>
  Collaborators that record themselves, in the world, every call they receive, with
  its arguments: the world of such a pair is the list of the calls really made.
\<close>

definition recordingIpGetter :: "string option \<times> error option \<Rightarrow> (call list) IPGetter" where
  "recordingIpGetter r = \<lparr>GetPublicIP = (\<lambda>cs. (r, cs @ [GetPublicIP_called]))\<rparr>"

definition recordingFileWriter :: "error option \<Rightarrow> (call list) FileWriter" where
  "recordingFileWriter r = \<lparr>Write = (\<lambda>fn bs pm cs. (r, cs @ [Write_called fn bs pm]))\<rparr>"

text \<open>
  Standard-library stand-ins for the adapter: the service answers with the JSON
  object \<open>{}\<close>, which decodes without error to a map with no key.
\<close>

definition emptyObjectLib :: "(unit, unit) stdlib" where
  "emptyObjectLib =
     \<lparr>http_Get = (\<lambda>url w. (Inr (), w)),
      io_ReadAll = (\<lambda>resp w. (Inr (bytes_of_string ''{}''), w)),
      json_Unmarshal = (\<lambda>body. if body = bytes_of_string ''{}'' then Inr Map.empty
                                else Inl (Error ''invalid character''))\<rparr>"

definition ipObjectLib :: "(unit, unit) stdlib" where
  "ipObjectLib =
     \<lparr>http_Get = (\<lambda>url w. (Inr (), w)),
      io_ReadAll = (\<lambda>resp w. (Inr (bytes_of_string ''{\"ip\":\"184.162.7.66\"}''), w)),
      json_Unmarshal = (\<lambda>body. Inr [''ip'' \<mapsto> ''184.162.7.66''])\<rparr>"

section \<open>The three runs of \<open>Execute\<close>\<close>

lemma Execute_fetch_failed:
  assumes "GetPublicIP ipGetter w = ((p, Some e), w1)"
  shows "Execute ipGetter fileWriter outputFile (w, log) =
           (Returned (Some e), (w1, log @ [GetPublicIP_called]))"
  using assms by (simp add: Execute_def call_GetPublicIP_def)

lemma Execute_nil_pointer:
  assumes "GetPublicIP ipGetter w = ((None, None), w1)"
  shows "Execute ipGetter fileWriter outputFile (w, log) =
           (Panicked, (w1, log @ [GetPublicIP_called]))"
  using assms by (simp add: Execute_def call_GetPublicIP_def)

lemma Execute_fetch_ok:
  assumes "GetPublicIP ipGetter w = ((Some s, None), w1)"
    and "Write fileWriter outputFile (bytes_of_string s) 420 w1 = (r, w2)"
  shows "Execute ipGetter fileWriter outputFile (w, log) =
           (Returned r,
            (w2, log @ [GetPublicIP_called, Write_called outputFile (bytes_of_string s) 420]))"
  using assms by (simp add: Execute_def call_GetPublicIP_def call_Write_def)

text \<open>
  What one invocation records depends on the result of the fetch alone, and an
  invocation appends its calls to whatever log it started with.
\<close>

lemma Execute_calls_eq:
  "Execute_calls ipGetter fileWriter outputFile w =
     (case fst (GetPublicIP ipGetter w) of
        (p, Some e) \<Rightarrow> [GetPublicIP_called]
      | (None, None) \<Rightarrow> [GetPublicIP_called]
      | (Some s, None) \<Rightarrow>
          [GetPublicIP_called, Write_called outputFile (bytes_of_string s) 420])"
  by (simp add: Execute_calls_def Execute_def call_GetPublicIP_def call_Write_def
      split: prod.splits option.splits)


lemma Execute_log:
  "snd (snd (Execute ipGetter fileWriter outputFile (w, log))) =
     log @ Execute_calls ipGetter fileWriter outputFile w"
  by (simp add: Execute_calls_def Execute_def call_GetPublicIP_def call_Write_def
      split: prod.splits option.splits)

lemma Execute_result_eq:
  "Execute_result ipGetter fileWriter outputFile w =
     (case GetPublicIP ipGetter w of
        ((p, Some e), w1) \<Rightarrow> Returned (Some e)
      | ((None, None), w1) \<Rightarrow> Panicked
      | ((Some s, None), w1) \<Rightarrow>
          Returned (fst (Write fileWriter outputFile (bytes_of_string s) 420 w1)))"
  by (simp add: Execute_result_def Execute_def call_GetPublicIP_def call_Write_def
      split: prod.splits option.splits)

lemma Execute_world_eq:
  "Execute_world ipGetter fileWriter outputFile w =
     (case GetPublicIP ipGetter w of
        ((p, Some e), w1) \<Rightarrow> w1
      | ((None, None), w1) \<Rightarrow> w1
      | ((Some s, None), w1) \<Rightarrow>
          snd (Write fileWriter outputFile (bytes_of_string s) 420 w1))"
  by (simp add: Execute_world_def Execute_def call_GetPublicIP_def call_Write_def
      split: prod.splits option.splits)

text \<open>The result does not depend on the log the invocation starts with.\<close>

lemma Execute_result_log:
  "fst (Execute ipGetter fileWriter outputFile (w, log)) =
     Execute_result ipGetter fileWriter outputFile w"
  by (simp add: Execute_result_def Execute_def call_GetPublicIP_def call_Write_def
      split: prod.splits option.splits)

text \<open>
  The log is what the collaborators see: collaborators that record their own calls in
  the world end with the calls of the log appended to it.
\<close>

lemma Execute_calls_recorded:
  "Execute_world (recordingIpGetter r) (recordingFileWriter e) outputFile cs =
     cs @ Execute_calls (recordingIpGetter r) (recordingFileWriter e) outputFile cs"
  by (cases r)
     (simp add: Execute_world_eq Execute_calls_eq recordingIpGetter_def recordingFileWriter_def
        split: option.splits)

section \<open>Bytes of a string\<close>

lemma unat_of_char: "unat (of_char c :: byte) = of_char c"
proof -
  have "(of_char c :: byte) = word_of_nat (of_char c)"
    by (simp only: of_nat_of_char)
  then have "unat (of_char c :: byte) = of_char c mod 2 ^ 8"
    by (simp only: unat_of_nat) simp
  moreover have "(of_char c :: nat) < 2 ^ 8"
    using nat_of_char_less_256 [of c] by simp
  ultimately show ?thesis by simp
qed

lemma string_of_bytes_of_string: "string_of_bytes (bytes_of_string s) = s"
  by (induction s) (simp_all add: string_of_bytes_def bytes_of_string_def unat_of_char)

lemma length_bytes_of_string: "length (bytes_of_string s) = length s"
  by (simp add: bytes_of_string_def)

lemma unat_bytes_of_string: "map unat (bytes_of_string s) = map of_char s"
  by (simp add: bytes_of_string_def unat_of_char)

section \<open>The run of \<open>TestExecute\<close>\<close>

lemma TestExecute:
  "Execute mockIpGetter mockFileWriter ''output.txt'' ((), []) =
     (Returned None, (),
      [GetPublicIP_called,
       Write_called ''output.txt'' (bytes_of_string ''184.162.7.66'') 420])"
  by (simp add: Execute_def mockIpGetter_def mockFileWriter_def
      call_GetPublicIP_def call_Write_def)

section \<open>Properties of \<open>Execute\<close>\<close>

text \<open>
  Claim C1. When \<open>GetPublicIP\<close> returns a non-nil error, \<open>Execute\<close> returns exactly
  that error and \<open>Write\<close> is never invoked: the only call of the invocation is the one
  to \<open>GetPublicIP\<close>, no recorded call is a \<open>Write\<close>, and the world is left as
  \<open>GetPublicIP\<close> left it.
\<close>

theorem fetch_failure_short_circuits:
  assumes "fst (GetPublicIP ipGetter w) = (p, Some e)"
  shows "Execute_result ipGetter fileWriter outputFile w = Returned (Some e)
       \<and> Execute_calls ipGetter fileWriter outputFile w = [GetPublicIP_called]
       \<and> filter is_Write (Execute_calls ipGetter fileWriter outputFile w) = []
       \<and> Execute_world ipGetter fileWriter outputFile w = snd (GetPublicIP ipGetter w)"
proof -
  obtain w1 where g: "GetPublicIP ipGetter w = ((p, Some e), w1)"
    using assms by (cases "GetPublicIP ipGetter w") simp
  have "Execute ipGetter fileWriter outputFile (w, []) =
          (Returned (Some e), (w1, [] @ [GetPublicIP_called]))"
    using g by (rule Execute_fetch_failed)
  then show ?thesis
    using g by (simp add: Execute_result_def Execute_calls_def Execute_world_def)
qed

theorem fetch_failure_short_circuits_witness:
  "fst (GetPublicIP failingIpGetter ([] :: files)) = (None, Some (Error ''fetch failed''))
   \<and> Execute_result failingIpGetter memFileWriter ''output.txt'' [] =
       Returned (Some (Error ''fetch failed''))
   \<and> Execute_calls failingIpGetter memFileWriter ''output.txt'' [] = [GetPublicIP_called]
   \<and> Execute_world failingIpGetter memFileWriter ''output.txt'' [] = []"
  using fetch_failure_short_circuits
    [of failingIpGetter "[] :: files" None "Error ''fetch failed''" memFileWriter "''output.txt''"]
  by (simp add: failingIpGetter_def)

text \<open>
  Claim C2. When \<open>GetPublicIP\<close> returns a nil error and a non-nil pointer, \<open>Execute\<close>
  calls \<open>Write\<close> once, in the world \<open>GetPublicIP\<close> left, and returns exactly what that
  call returns: nil when \<open>Write\<close> succeeds and the error of \<open>Write\<close> when it fails.
\<close>

theorem fetch_success_returns_write_result:
  assumes "GetPublicIP ipGetter w = ((Some s, None), w1)"
  shows "Execute_result ipGetter fileWriter outputFile w =
           Returned (fst (Write fileWriter outputFile (bytes_of_string s) 420 w1))
       \<and> length (filter is_Write (Execute_calls ipGetter fileWriter outputFile w)) = 1
       \<and> Execute_world ipGetter fileWriter outputFile w =
           snd (Write fileWriter outputFile (bytes_of_string s) 420 w1)"
proof -
  obtain r w2 where wr: "Write fileWriter outputFile (bytes_of_string s) 420 w1 = (r, w2)"
    by (cases "Write fileWriter outputFile (bytes_of_string s) 420 w1")
  have "Execute ipGetter fileWriter outputFile (w, []) =
          (Returned r,
           (w2, [] @ [GetPublicIP_called, Write_called outputFile (bytes_of_string s) 420]))"
    using assms wr by (rule Execute_fetch_ok)
  then show ?thesis
    using wr by (simp add: Execute_result_def Execute_calls_def Execute_world_def)
qed

theorem fetch_success_returns_write_result_witness:
  "GetPublicIP mockIpGetter ([] :: files) = ((Some ''184.162.7.66'', None), [])
   \<and> Execute_result mockIpGetter failingFileWriter ''output.txt'' ([] :: files) =
       Returned (Some (Error ''persist failed''))
   \<and> length (filter is_Write
        (Execute_calls mockIpGetter failingFileWriter ''output.txt'' ([] :: files))) = 1
   \<and> Execute_world mockIpGetter failingFileWriter ''output.txt'' ([] :: files) = []"
  using fetch_success_returns_write_result
    [of mockIpGetter "[] :: files" "''184.162.7.66''" "[]" failingFileWriter "''output.txt''"]
  by (simp add: mockIpGetter_def failingFileWriter_def)

text \<open>
  Claim C3. When \<open>GetPublicIP\<close> succeeds with a pointer to the string \<open>s\<close>, the data
  argument passed to \<open>Write\<close> is the byte-for-byte encoding of \<open>s\<close>: the one \<open>Write\<close>
  call of the log carries it, the result and the final world of \<open>Execute\<close> are those
  of \<open>Write\<close> applied to exactly these bytes in the world \<open>GetPublicIP\<close> left, the bytes
  have the length of \<open>s\<close>, they are the character codes of \<open>s\<close> in order, and reading
  them back gives \<open>s\<close>. Nothing is transformed, trimmed or reformatted.
\<close>

theorem payload_fidelity:
  assumes "fst (GetPublicIP ipGetter w) = (Some s, None)"
  shows "map data (filter is_Write (Execute_calls ipGetter fileWriter outputFile w)) =
           [bytes_of_string s]
       \<and> Execute_result ipGetter fileWriter outputFile w =
           Returned (fst (Write fileWriter outputFile (bytes_of_string s) 420
                            (snd (GetPublicIP ipGetter w))))
       \<and> Execute_world ipGetter fileWriter outputFile w =
           snd (Write fileWriter outputFile (bytes_of_string s) 420
                  (snd (GetPublicIP ipGetter w)))
       \<and> length (bytes_of_string s) = length s
       \<and> map unat (bytes_of_string s) = map of_char s
       \<and> string_of_bytes (bytes_of_string s) = s"
proof -
  obtain w1 where g: "GetPublicIP ipGetter w = ((Some s, None), w1)"
    using assms by (cases "GetPublicIP ipGetter w") simp
  have "Execute_result ipGetter fileWriter outputFile w =
          Returned (fst (Write fileWriter outputFile (bytes_of_string s) 420 w1))"
    and "Execute_world ipGetter fileWriter outputFile w =
          snd (Write fileWriter outputFile (bytes_of_string s) 420 w1)"
    using g by (simp_all add: Execute_result_eq Execute_world_eq)
  then show ?thesis
    using g
    by (simp add: Execute_calls_eq length_bytes_of_string unat_bytes_of_string
        string_of_bytes_of_string)
qed

theorem payload_fidelity_witness:
  "fst (GetPublicIP mockIpGetter ([] :: files)) = (Some ''184.162.7.66'', None)
   \<and> map data (filter is_Write (Execute_calls mockIpGetter memFileWriter ''output.txt'' [])) =
       [[49, 56, 52, 46, 49, 54, 50, 46, 55, 46, 54, 54]]
   \<and> Execute_result mockIpGetter memFileWriter ''output.txt'' [] = Returned None
   \<and> Execute_world mockIpGetter memFileWriter ''output.txt'' [] =
       [(''output.txt'', [49, 56, 52, 46, 49, 54, 50, 46, 55, 46, 54, 54], 420)]
   \<and> string_of_bytes [49, 56, 52, 46, 49, 54, 50, 46, 55, 46, 54, 54] = ''184.162.7.66''"
  using payload_fidelity
    [of mockIpGetter "[] :: files" "''184.162.7.66''" memFileWriter "''output.txt''"]
  by (simp add: mockIpGetter_def memFileWriter_def bytes_of_string_def)

text \<open>
  Claim C4. In every invocation of \<open>Execute\<close>, \<open>GetPublicIP\<close> is called exactly once
  and \<open>Write\<close> at most once. If \<open>Write\<close> is called at all, then \<open>GetPublicIP\<close> had
  returned a nil error with a pointer to a string \<open>s\<close>, the log is the call of
  \<open>GetPublicIP\<close> followed by the call of \<open>Write\<close>, and the result and the final world
  are those of one application of \<open>Write\<close> in the world one application of
  \<open>GetPublicIP\<close> left. If \<open>Write\<close> is not called, the final world is the one
  \<open>GetPublicIP\<close> left. In every run that returns nil, the fetch succeeded, the log is
  exactly the two calls, the fetch before the persist, \<open>Write\<close> returned nil and the
  final world is the one that \<open>Write\<close> left.
\<close>

theorem invocation_counts:
  "length (filter is_GetPublicIP (Execute_calls ipGetter fileWriter outputFile w)) = 1
   \<and> length (filter is_Write (Execute_calls ipGetter fileWriter outputFile w)) \<le> 1
   \<and> (filter is_Write (Execute_calls ipGetter fileWriter outputFile w) \<noteq> [] \<longrightarrow>
        snd (fst (GetPublicIP ipGetter w)) = None
        \<and> (\<exists>s. fst (fst (GetPublicIP ipGetter w)) = Some s
               \<and> Execute_calls ipGetter fileWriter outputFile w =
                   [GetPublicIP_called, Write_called outputFile (bytes_of_string s) 420]
               \<and> Execute_result ipGetter fileWriter outputFile w =
                   Returned (fst (Write fileWriter outputFile (bytes_of_string s) 420
                                    (snd (GetPublicIP ipGetter w))))
               \<and> Execute_world ipGetter fileWriter outputFile w =
                   snd (Write fileWriter outputFile (bytes_of_string s) 420
                          (snd (GetPublicIP ipGetter w)))))
   \<and> (filter is_Write (Execute_calls ipGetter fileWriter outputFile w) = [] \<longrightarrow>
        Execute_calls ipGetter fileWriter outputFile w = [GetPublicIP_called]
        \<and> Execute_world ipGetter fileWriter outputFile w = snd (GetPublicIP ipGetter w))
   \<and> (Execute_result ipGetter fileWriter outputFile w = Returned None \<longrightarrow>
        (\<exists>s. fst (GetPublicIP ipGetter w) = (Some s, None)
               \<and> Execute_calls ipGetter fileWriter outputFile w =
                   [GetPublicIP_called, Write_called outputFile (bytes_of_string s) 420]
               \<and> fst (Write fileWriter outputFile (bytes_of_string s) 420
                        (snd (GetPublicIP ipGetter w))) = None
               \<and> Execute_world ipGetter fileWriter outputFile w =
                   snd (Write fileWriter outputFile (bytes_of_string s) 420
                          (snd (GetPublicIP ipGetter w)))))"
proof -
  let ?calls = "Execute_calls ipGetter fileWriter outputFile w"
  obtain p err w1 where g: "GetPublicIP ipGetter w = ((p, err), w1)"
    by (metis surj_pair)
  show ?thesis
  proof (cases err)
    case (Some e)
    with g have "?calls = [GetPublicIP_called]"
      and "Execute_result ipGetter fileWriter outputFile w = Returned (Some e)"
      and "Execute_world ipGetter fileWriter outputFile w = w1"
      by (simp_all add: Execute_calls_eq Execute_result_eq Execute_world_eq
          split: option.splits)
    then show ?thesis using g by simp
  next
    case None
    show ?thesis
    proof (cases p)
      case nil: None
      with None g have "?calls = [GetPublicIP_called]"
        and "Execute_result ipGetter fileWriter outputFile w = Panicked"
        and "Execute_world ipGetter fileWriter outputFile w = w1"
        by (simp_all add: Execute_calls_eq Execute_result_eq Execute_world_eq)
      then show ?thesis using g by simp
    next
      case (Some s)
      with None g have
        "?calls = [GetPublicIP_called, Write_called outputFile (bytes_of_string s) 420]"
        and "Execute_result ipGetter fileWriter outputFile w =
               Returned (fst (Write fileWriter outputFile (bytes_of_string s) 420 w1))"
        and "Execute_world ipGetter fileWriter outputFile w =
               snd (Write fileWriter outputFile (bytes_of_string s) 420 w1)"
        by (simp_all add: Execute_calls_eq Execute_result_eq Execute_world_eq)
      then show ?thesis using None Some g by simp
    qed
  qed
qed

theorem invocation_counts_witness:
  "filter is_Write
     (Execute_calls (recordingIpGetter (Some ''184.162.7.66'', None))
        (recordingFileWriter None) ''output.txt'' []) \<noteq> []
   \<and> Execute_result (recordingIpGetter (Some ''184.162.7.66'', None))
        (recordingFileWriter None) ''output.txt'' [] = Returned None
   \<and> length (filter is_GetPublicIP
        (Execute_calls (recordingIpGetter (Some ''184.162.7.66'', None))
           (recordingFileWriter None) ''output.txt'' [])) = 1
   \<and> length (filter is_Write
        (Execute_calls (recordingIpGetter (Some ''184.162.7.66'', None))
           (recordingFileWriter None) ''output.txt'' [])) = 1
   \<and> Execute_world (recordingIpGetter (Some ''184.162.7.66'', None))
        (recordingFileWriter None) ''output.txt'' [] =
       [GetPublicIP_called,
        Write_called ''output.txt'' (bytes_of_string ''184.162.7.66'') 420]
   \<and> filter is_Write
       (Execute_calls (recordingIpGetter (None, Some (Error ''fetch failed'')))
          (recordingFileWriter None) ''output.txt'' []) = []
   \<and> Execute_world (recordingIpGetter (None, Some (Error ''fetch failed'')))
        (recordingFileWriter None) ''output.txt'' [] = [GetPublicIP_called]"
proof -
  let ?ok = "recordingIpGetter (Some ''184.162.7.66'', None)"
  let ?ko = "recordingIpGetter (None, Some (Error ''fetch failed''))"
  let ?fw = "recordingFileWriter None"
  have gok: "GetPublicIP ?ok [] = ((Some ''184.162.7.66'', None), [GetPublicIP_called])"
    and gko: "GetPublicIP ?ko [] = ((None, Some (Error ''fetch failed'')), [GetPublicIP_called])"
    by (simp_all add: recordingIpGetter_def)
  have wr: "Write ?fw ''output.txt'' (bytes_of_string ''184.162.7.66'') 420 [GetPublicIP_called] =
      (None, [GetPublicIP_called,
              Write_called ''output.txt'' (bytes_of_string ''184.162.7.66'') 420])"
    by (simp add: recordingFileWriter_def)
  have cok: "Execute_calls ?ok ?fw ''output.txt'' [] =
      [GetPublicIP_called, Write_called ''output.txt'' (bytes_of_string ''184.162.7.66'') 420]"
    by (simp add: Execute_calls_eq gok)
  have cko: "Execute_calls ?ko ?fw ''output.txt'' [] = [GetPublicIP_called]"
    by (simp add: Execute_calls_eq gko)
  have rok: "Execute_result ?ok ?fw ''output.txt'' [] = Returned None"
    by (simp add: Execute_result_eq gok wr)
  have h1: "filter is_Write (Execute_calls ?ok ?fw ''output.txt'' []) \<noteq> []"
    and h2: "filter is_Write (Execute_calls ?ko ?fw ''output.txt'' []) = []"
    by (simp_all add: cok cko)
  note ok = invocation_counts [of ?ok ?fw "''output.txt''" "[]"]
  note ko = invocation_counts [of ?ko ?fw "''output.txt''" "[]"]
  from ok h1 obtain s where
    s: "fst (fst (GetPublicIP ?ok [])) = Some s"
    and wok: "Execute_world ?ok ?fw ''output.txt'' [] =
        snd (Write ?fw ''output.txt'' (bytes_of_string s) 420 (snd (GetPublicIP ?ok [])))"
    by blast
  from s have "s = ''184.162.7.66''"
    by (simp add: gok)
  with wok have w1: "Execute_world ?ok ?fw ''output.txt'' [] =
      [GetPublicIP_called, Write_called ''output.txt'' (bytes_of_string ''184.162.7.66'') 420]"
    by (simp add: gok wr)
  from ko h2 have "Execute_world ?ko ?fw ''output.txt'' [] = snd (GetPublicIP ?ko [])"
    by blast
  then have w2: "Execute_world ?ko ?fw ''output.txt'' [] = [GetPublicIP_called]"
    by (simp add: gko)
  from ok have n1: "length (filter is_GetPublicIP (Execute_calls ?ok ?fw ''output.txt'' [])) = 1"
    by blast
  have n2: "length (filter is_Write (Execute_calls ?ok ?fw ''output.txt'' [])) = 1"
    by (simp add: cok)
  from h1 rok n1 n2 w1 h2 w2 show ?thesis
    by blast
qed



text \<open>
  Claim C7. \<open>Execute\<close> returns nil if and only if both steps succeed: \<open>GetPublicIP\<close>
  returns a nil error (with the pointer to a string \<open>s\<close> that the second step needs)
  and the \<open>Write\<close> that follows, in the world \<open>GetPublicIP\<close> left, returns a nil error.
  If the fetch fails, no \<open>Write\<close> is attempted and the world is the one \<open>GetPublicIP\<close>
  left.
\<close>

theorem success_iff_both_steps_succeed:
  "(Execute_result ipGetter fileWriter outputFile w = Returned None) =
     (snd (fst (GetPublicIP ipGetter w)) = None
      \<and> (\<exists>s. fst (fst (GetPublicIP ipGetter w)) = Some s
             \<and> fst (Write fileWriter outputFile (bytes_of_string s) 420
                      (snd (GetPublicIP ipGetter w))) = None))
   \<and> (snd (fst (GetPublicIP ipGetter w)) \<noteq> None \<longrightarrow>
        filter is_Write (Execute_calls ipGetter fileWriter outputFile w) = []
        \<and> Execute_world ipGetter fileWriter outputFile w = snd (GetPublicIP ipGetter w))"
proof -
  obtain p err w1 where g: "GetPublicIP ipGetter w = ((p, err), w1)"
    by (metis surj_pair)
  show ?thesis
  proof (cases err)
    case (Some e)
    with g show ?thesis
      by (simp add: Execute_result_eq Execute_calls_eq Execute_world_eq split: option.splits)
  next
    case None
    with g show ?thesis
      by (cases p) (simp_all add: Execute_result_eq)
  qed
qed

theorem success_iff_both_steps_succeed_witness:
  "Execute_result mockIpGetter mockFileWriter ''output.txt'' () = Returned None
   \<and> snd (fst (GetPublicIP mockIpGetter ())) = None
   \<and> fst (fst (GetPublicIP mockIpGetter ())) = Some ''184.162.7.66''
   \<and> fst (Write mockFileWriter ''output.txt'' (bytes_of_string ''184.162.7.66'') 420 ()) = None
   \<and> snd (fst (GetPublicIP failingIpGetter ([] :: files))) \<noteq> None
   \<and> Execute_result failingIpGetter memFileWriter ''output.txt'' [] \<noteq> Returned None
   \<and> filter is_Write (Execute_calls failingIpGetter memFileWriter ''output.txt'' []) = []
   \<and> Execute_world failingIpGetter memFileWriter ''output.txt'' [] = []"
  using success_iff_both_steps_succeed [of mockIpGetter mockFileWriter "''output.txt''" "()"]
    success_iff_both_steps_succeed [of failingIpGetter memFileWriter "''output.txt''" "[]"]
  by (simp add: mockIpGetter_def mockFileWriter_def failingIpGetter_def)



text \<open>
  Claim C10. \<open>Execute\<close> dereferences the pointer returned by \<open>GetPublicIP\<close> without a
  nil check. If a nil error of \<open>GetPublicIP\<close> comes with a non-nil pointer, \<open>Execute\<close>
  completes without a nil-pointer fault (it returns). If \<open>GetPublicIP\<close> returns a nil
  pointer and a nil error, the dereference faults: \<open>Execute\<close> panics, before \<open>Write\<close>
  is called.
\<close>

theorem nil_pointer_dereference:
  "((snd (fst (GetPublicIP ipGetter w)) = None \<longrightarrow> fst (fst (GetPublicIP ipGetter w)) \<noteq> None)
      \<longrightarrow> (\<exists>r. Execute_result ipGetter fileWriter outputFile w = Returned r))
   \<and> (fst (GetPublicIP ipGetter w) = (None, None)
      \<longrightarrow> Execute_result ipGetter fileWriter outputFile w = Panicked
          \<and> Execute_calls ipGetter fileWriter outputFile w = [GetPublicIP_called])"
proof -
  obtain p err w1 where g: "GetPublicIP ipGetter w = ((p, err), w1)"
    by (metis surj_pair)
  show ?thesis
  proof (cases err)
    case (Some e)
    with g show ?thesis
      by (simp add: Execute_result_eq split: option.splits)
  next
    case None
    with g show ?thesis
      by (cases p) (simp_all add: Execute_result_eq Execute_calls_eq)
  qed
qed

theorem nil_pointer_dereference_witness:
  "snd (fst (GetPublicIP mockIpGetter ())) = None
   \<and> fst (fst (GetPublicIP mockIpGetter ())) \<noteq> None
   \<and> Execute_result mockIpGetter mockFileWriter ''output.txt'' () = Returned None
   \<and> fst (GetPublicIP nilIpGetter ()) = (None, None)
   \<and> Execute_result nilIpGetter mockFileWriter ''output.txt'' () = Panicked
   \<and> Execute_calls nilIpGetter mockFileWriter ''output.txt'' () = [GetPublicIP_called]"
proof -
  have r: "Execute_result mockIpGetter mockFileWriter ''output.txt'' () = Returned None"
    by (simp add: Execute_result_def TestExecute)
  show ?thesis
    using nil_pointer_dereference [of mockIpGetter "()" mockFileWriter "''output.txt''"]
      nil_pointer_dereference [of nilIpGetter "()" mockFileWriter "''output.txt''"] r
    by (simp add: mockIpGetter_def nilIpGetter_def)
qed

section \<open>Properties of the adapter \<open>Ipify.GetPublicIP\<close>\<close>

lemma Ipify_GetPublicIP_decoded:
  assumes "http_Get lib ''https://api.ipify.org?format=json'' w = (Inr resp, w1)"
    and "io_ReadAll lib resp w1 = (Inr body, w2)"
    and "json_Unmarshal lib body = Inr result"
  shows "Ipify_GetPublicIP lib w = ((Some (map_index result ''ip''), None), w2)"
  using assms by (simp add: Ipify_GetPublicIP_def)

lemma Ipify_GetPublicIP_cases:
  "(\<exists>e w1. Ipify_GetPublicIP lib w = ((None, Some e), w1))
   \<or> (\<exists>s w1. Ipify_GetPublicIP lib w = ((Some s, None), w1))"
  by (simp add: Ipify_GetPublicIP_def split: prod.splits sum.splits)

text \<open>With the adapter as its \<open>IPGetter\<close>, \<open>Execute\<close> always returns.\<close>

lemma Execute_Ipify_returns:
  "\<exists>r. Execute_result (Ipify lib) fileWriter outputFile w = Returned r"
  using Ipify_GetPublicIP_cases [of lib w]
  by (auto simp add: Execute_result_eq Ipify_def)

text \<open>
  Claim C5, as stated, does not hold: the adapter does not fail when the decoded JSON
  object has no \<open>ip\<close> field. With a service that answers \<open>{}\<close>, the GET, the read and
  the decoding succeed, the decoded map has no key \<open>ip\<close>, and \<open>GetPublicIP\<close> returns
  a nil error with a pointer to the empty string.
\<close>

theorem ipify_missing_ip_counterexample:
  "fst (http_Get emptyObjectLib ''https://api.ipify.org?format=json'' ()) = Inr ()
   \<and> fst (io_ReadAll emptyObjectLib () ()) = Inr (bytes_of_string ''{}'')
   \<and> \<not> isl (json_Unmarshal emptyObjectLib (bytes_of_string ''{}''))
   \<and> projr (json_Unmarshal emptyObjectLib (bytes_of_string ''{}'')) ''ip'' = None
   \<and> Ipify_GetPublicIP emptyObjectLib () = ((Some [], None), ())
   \<and> snd (fst (Ipify_GetPublicIP emptyObjectLib ())) = None"
  by (simp add: emptyObjectLib_def Ipify_GetPublicIP_def map_index_def)

text \<open>
  Claim C5, amended. After the lookup-service response has been fetched and
  JSON-decoded without error, if the decoded object does not contain an \<open>ip\<close> field,
  \<open>Ipify.GetPublicIP\<close> returns a nil error and a non-nil pointer to the empty string
  (the zero value that indexing a Go map gives for a missing key).
\<close>

theorem ipify_missing_ip_gives_empty_string:
  assumes "http_Get lib ''https://api.ipify.org?format=json'' w = (Inr resp, w1)"
    and "io_ReadAll lib resp w1 = (Inr body, w2)"
    and "json_Unmarshal lib body = Inr result"
    and "result ''ip'' = None"
  shows "Ipify_GetPublicIP lib w = ((Some [], None), w2)"
  using assms by (simp add: Ipify_GetPublicIP_def map_index_def)

theorem ipify_missing_ip_gives_empty_string_witness:
  "http_Get emptyObjectLib ''https://api.ipify.org?format=json'' () = (Inr (), ())
   \<and> io_ReadAll emptyObjectLib () () = (Inr (bytes_of_string ''{}''), ())
   \<and> json_Unmarshal emptyObjectLib (bytes_of_string ''{}'') = Inr Map.empty
   \<and> Ipify_GetPublicIP emptyObjectLib () = ((Some [], None), ())"
  using ipify_missing_ip_gives_empty_string
    [of emptyObjectLib "()" "()" "()" "bytes_of_string ''{}''" "()" Map.empty]
  by (simp add: emptyObjectLib_def)

text \<open>
  Claim C9. Whenever \<open>Ipify.GetPublicIP\<close> returns a nil error, the string pointer it
  returns is not nil.
\<close>

theorem ipify_success_pointer_non_nil:
  assumes "snd (fst (Ipify_GetPublicIP lib w)) = None"
  shows "fst (fst (Ipify_GetPublicIP lib w)) \<noteq> None"
  using assms Ipify_GetPublicIP_cases [of lib w] by auto

theorem ipify_success_pointer_non_nil_witness:
  "snd (fst (Ipify_GetPublicIP ipObjectLib ())) = None
   \<and> fst (fst (Ipify_GetPublicIP ipObjectLib ())) = Some ''184.162.7.66''"
  using ipify_success_pointer_non_nil [of ipObjectLib "()"]
  by (simp add: ipObjectLib_def Ipify_GetPublicIP_def map_index_def)

end
